theory Spec2Isabelle
  imports Complex_Main "HOL-Library.AList"
begin

section \<open>Common Python idioms\<close>

text \<open>
  Python floats are modelled as \<^typ>\<open>real\<close>: every comparison and every arithmetic
  step below is read in exact arithmetic. Exceptions are values of \<open>error\<close>.
\<close>

datatype error = KeyError | ZeroDivisionError | IndexError

text \<open>\<open>d.get(key, default)\<close> on a dictionary entry that may be absent.\<close>

definition dict_get :: "'a option \<Rightarrow> 'a \<Rightarrow> 'a" where
  "dict_get v dflt = (case v of None \<Rightarrow> dflt | Some x \<Rightarrow> x)"

text \<open>
  The format specifications of the f-strings (\<open>{x:.0%}\<close>, \<open>{x:.1%}\<close>, \<open>{x:.1f}\<close>,
  \<open>{x:.2f}\<close>, \<open>{n}\<close>) render a number as text. They are parameters of the model.
\<close>

record fmt =
  pct0 :: "real \<Rightarrow> string"
  pct1 :: "real \<Rightarrow> string"
  fix1 :: "real \<Rightarrow> string"
  fix2 :: "real \<Rightarrow> string"
  dec :: "int \<Rightarrow> string"

text \<open>The slice \<open>xs[k:]\<close>: a negative \<open>k\<close> counts from the end, and both ends clamp.\<close>

definition slice_from :: "int \<Rightarrow> 'a list \<Rightarrow> 'a list" where
  "slice_from k xs =
     (let n = int (length xs);
          start = (if k < 0 then max (n + k) 0 else min k n)
      in drop (nat start) xs)"

section \<open>run_api.py: VerifierAgent\<close>

text \<open>The signal and state dictionaries, with the keys the verifier reads.\<close>

record signal =
  sig_symbol :: "string option"
  sig_strength :: "real option"
  sig_side :: "string option"

record state_dict =
  st_noise_level :: "real option"
  st_current_drawdown :: "real option"
  st_daily_pnl_pct :: "real option"
  st_regime_confidence :: "real option"

text \<open>
  What the verifier reads from its environment: the two environment variables (their
  parsed value when set), \<open>STRATEGY_CONFIG["max_positions"]\<close>, and the wall clock in
  US/Eastern as (hour, minute); the clock is \<open>None\<close> when reading it raises.
\<close>

record gate_env =
  env_max_drawdown :: "real option"
  env_max_daily_loss :: "real option"
  cfg_max_positions :: nat
  now_et :: "(nat \<times> nat) option"

record verifier_agent =
  signals_verified :: nat
  signals_rejected :: nat
  rejection_reasons :: "string list"

definition check_variance_inequality :: "signal \<Rightarrow> state_dict \<Rightarrow> bool" where
  "check_variance_inequality sg st =
     (let signal_strength = dict_get (sig_strength sg) 0;
          noise_level = dict_get (st_noise_level st) 0.01
      in \<bar>signal_strength\<bar> > noise_level * 2)"

definition is_past_hard_stop :: "(nat \<times> nat) option \<Rightarrow> bool" where
  "is_past_hard_stop now =
     (case now of None \<Rightarrow> False | Some (h, m) \<Rightarrow> h \<ge> 15 \<and> m \<ge> 50)"

definition reject :: "verifier_agent \<Rightarrow> string \<Rightarrow> verifier_agent \<times> bool \<times> string" where
  "reject va reason =
     (va\<lparr>signals_rejected := signals_rejected va + 1,
         rejection_reasons := rejection_reasons va @ [reason]\<rparr>, False, reason)"

definition verify_signal ::
  "fmt \<Rightarrow> gate_env \<Rightarrow> verifier_agent \<Rightarrow> signal \<Rightarrow> state_dict \<Rightarrow> 'p list
     \<Rightarrow> error + (verifier_agent \<times> bool \<times> string)" where
  "verify_signal f env va sg st positions =
     (if \<not> check_variance_inequality sg st
      then Inr (reject va ''Variance inequality not satisfied'')
      else
        let max_dd = dict_get (env_max_drawdown env) 0.10;
            current_dd = dict_get (st_current_drawdown st) 0
        in if current_dd \<ge> max_dd
           then Inr (reject va (''Max drawdown exceeded: '' @ pct1 f current_dd
                                  @ '' >= '' @ pct1 f max_dd))
           else
        let max_daily_loss = dict_get (env_max_daily_loss env) 0.03;
            daily_pnl = dict_get (st_daily_pnl_pct st) 0
        in if daily_pnl \<le> - max_daily_loss
           then Inr (reject va (''Daily loss limit hit: '' @ pct1 f daily_pnl))
           else
        let regime_conf = dict_get (st_regime_confidence st) 0.5
        in if regime_conf < 0.6 \<and> sig_side sg = None then Inl KeyError
           else if regime_conf < 0.6 \<and> sig_side sg = Some ''buy''
           then Inr (reject va (''Low regime confidence: '' @ pct1 f regime_conf @ '' < 60%''))
           else if length positions \<ge> cfg_max_positions env \<and> sig_side sg = None
           then Inl KeyError
           else if length positions \<ge> cfg_max_positions env \<and> sig_side sg = Some ''buy''
           then Inr (reject va (''Max positions reached: '' @ dec f (int (length positions))))
           else if is_past_hard_stop (now_et env)
           then Inr (reject va ''Past hard stop time (3:50 PM ET)'')
           else Inr (va\<lparr>signals_verified := signals_verified va + 1\<rparr>,
                     True, ''Signal verified''))"

section \<open>run_api.py: HARDetector\<close>

record trade =
  trade_pnl :: "real option"

record alert =
  alert_time :: real
  alert_type :: string
  alert_har :: real
  alert_message :: string

record har_detector =
  lookback :: int
  threshold :: real
  alerts :: "alert list"
  strategic_inactivity :: bool
  inactivity_start :: "real option"

definition wins_of :: "trade list \<Rightarrow> nat" where
  "wins_of recent = length (filter (\<lambda>t. dict_get (trade_pnl t) 0 > 0) recent)"

definition calculate_har :: "har_detector \<Rightarrow> trade list \<Rightarrow> real" where
  "calculate_har har trade_log =
     (if trade_log = [] then 0.5
      else let recent = slice_from (- lookback har) trade_log
           in if length recent < 5 then 0.5
              else real (wins_of recent) / real (length recent))"

text \<open>\<open>now\<close> is the reading of \<open>datetime.now()\<close>, in seconds.\<close>

definition detect_edge_decay ::
  "fmt \<Rightarrow> real \<Rightarrow> har_detector \<Rightarrow> trade list \<Rightarrow> har_detector \<times> bool \<times> real" where
  "detect_edge_decay f now har trade_log =
     (let current_har = calculate_har har trade_log;
          is_decaying = (current_har < threshold har)
      in if is_decaying \<and> \<not> strategic_inactivity har
         then (har\<lparr>strategic_inactivity := True,
                   inactivity_start := Some now,
                   alerts := alerts har @
                     [\<lparr>alert_time = now, alert_type = ''edge_decay'', alert_har = current_har,
                       alert_message = ''Edge decay detected! HAR='' @ pct1 f current_har
                          @ '' < '' @ pct1 f (threshold har)\<rparr>]\<rparr>,
               is_decaying, current_har)
         else if \<not> is_decaying \<and> strategic_inactivity har
         then (let duration = (case inactivity_start har of None \<Rightarrow> 0 | Some t0 \<Rightarrow> now - t0)
               in (har\<lparr>strategic_inactivity := False,
                       alerts := alerts har @
                         [\<lparr>alert_time = now, alert_type = ''edge_restored'',
                           alert_har = current_har,
                           alert_message = ''Edge restored! HAR='' @ pct1 f current_har
                              @ ''. Inactive for '' @ fix1 f (duration / 60) @ '' mins''\<rparr>],
                       inactivity_start := None\<rparr>,
                   is_decaying, current_har))
         else (har, is_decaying, current_har))"

section \<open>tms/risk/aggressive_risk.py\<close>



fun starts_with :: "string \<Rightarrow> string \<Rightarrow> bool" where
  "starts_with [] s = True"
| "starts_with (p # ps) [] = False"
| "starts_with (p # ps) (c # cs) = (p = c \<and> starts_with ps cs)"


datatype growth_phase = SEED | SPROUT | GROW | MATURE

record aggressive_risk_config =
  seed_max :: real
  sprout_max :: real
  grow_max :: real
  seed_max_position :: real
  sprout_max_position :: real
  grow_max_position :: real
  mature_max_position :: real
  seed_daily_loss_halt :: real
  sprout_daily_loss_halt :: real
  grow_daily_loss_halt :: real
  mature_daily_loss_halt :: real
  seed_drawdown_halt :: real
  sprout_drawdown_halt :: real
  grow_drawdown_halt :: real
  mature_drawdown_halt :: real
  rc_max_consecutive_losses :: int
  min_trade_value_usd :: real

definition default_risk_config :: aggressive_risk_config where
  "default_risk_config =
     \<lparr>seed_max = 500, sprout_max = 2500, grow_max = 30000,
      seed_max_position = 0.40, sprout_max_position = 0.30,
      grow_max_position = 0.20, mature_max_position = 0.15,
      seed_daily_loss_halt = 0.40, sprout_daily_loss_halt = 0.30,
      grow_daily_loss_halt = 0.20, mature_daily_loss_halt = 0.10,
      seed_drawdown_halt = 0.50, sprout_drawdown_halt = 0.40,
      grow_drawdown_halt = 0.30, mature_drawdown_halt = 0.20,
      rc_max_consecutive_losses = 6, min_trade_value_usd = 5\<rparr>"

record trade_record =
  tr_timestamp :: string
  tr_symbol :: string
  tr_pnl :: real
  tr_pnl_pct :: real

record risk_manager =
  rm_config :: aggressive_risk_config
  rm_equity :: real
  rm_peak_equity :: real
  rm_day_start_equity :: real
  rm_current_date :: string
  rm_consecutive_losses :: int
  rm_is_halted :: bool
  rm_halt_reason :: "string option"
  rm_trade_history :: "trade_record list"
  rm_milestones_hit :: "real list"
  rm_milestone_targets :: "real list"

text \<open>The constructor; \<open>today\<close> is the UTC date at construction.\<close>

definition init_risk_manager :: "aggressive_risk_config \<Rightarrow> string \<Rightarrow> risk_manager" where
  "init_risk_manager cfg today =
     \<lparr>rm_config = cfg, rm_equity = 100, rm_peak_equity = 100, rm_day_start_equity = 100,
      rm_current_date = today, rm_consecutive_losses = 0, rm_is_halted = False,
      rm_halt_reason = None, rm_trade_history = [], rm_milestones_hit = [],
      rm_milestone_targets = [500, 1000, 2500, 5000, 10000, 25000, 50000, 100000]\<rparr>"


text \<open>\<open>eq = equity or self._equity\<close>: an absent or zero argument falls back to the manager's equity.\<close>

definition get_phase :: "risk_manager \<Rightarrow> real option \<Rightarrow> growth_phase" where
  "get_phase rm equity =
     (let eq = (case equity of None \<Rightarrow> rm_equity rm
                | Some e \<Rightarrow> if e = 0 then rm_equity rm else e)
      in if eq < seed_max (rm_config rm) then SEED
         else if eq < sprout_max (rm_config rm) then SPROUT
         else if eq < grow_max (rm_config rm) then GROW
         else MATURE)"

definition get_max_position_pct :: "risk_manager \<Rightarrow> real option \<Rightarrow> real" where
  "get_max_position_pct rm equity =
     (case get_phase rm equity of
        SEED \<Rightarrow> seed_max_position (rm_config rm)
      | SPROUT \<Rightarrow> sprout_max_position (rm_config rm)
      | GROW \<Rightarrow> grow_max_position (rm_config rm)
      | MATURE \<Rightarrow> mature_max_position (rm_config rm))"





text \<open>The three halt messages of \<open>update_equity\<close>.\<close>

definition daily_halt_reason :: "fmt \<Rightarrow> real \<Rightarrow> real \<Rightarrow> string" where
  "daily_halt_reason f daily_pnl_pct daily_halt =
     ''Daily loss limit hit: '' @ pct1 f daily_pnl_pct @ '' (limit: -'' @ pct1 f daily_halt @ '')''"

definition drawdown_halt_reason :: "fmt \<Rightarrow> real \<Rightarrow> real \<Rightarrow> string" where
  "drawdown_halt_reason f current_drawdown dd_halt =
     ''Drawdown limit hit: '' @ pct1 f current_drawdown @ '' (limit: '' @ pct1 f dd_halt @ '')''"

definition consecutive_halt_reason :: "fmt \<Rightarrow> int \<Rightarrow> string" where
  "consecutive_halt_reason f n =
     ''Consecutive loss limit: '' @ dec f n @ '' losses in a row''"




definition check_halt_conditions ::
  "fmt \<Rightarrow> risk_manager \<Rightarrow> real \<Rightarrow> real \<Rightarrow> real \<Rightarrow> real \<Rightarrow> risk_manager" where
  "check_halt_conditions f rm current_drawdown daily_pnl_pct daily_halt dd_halt =
     (if \<not> rm_is_halted rm
      then if daily_pnl_pct \<le> - daily_halt
           then rm\<lparr>rm_is_halted := True,
                   rm_halt_reason := Some (daily_halt_reason f daily_pnl_pct daily_halt)\<rparr>
           else if current_drawdown \<ge> dd_halt
           then rm\<lparr>rm_is_halted := True,
                   rm_halt_reason := Some (drawdown_halt_reason f current_drawdown dd_halt)\<rparr>
           else if rm_consecutive_losses rm \<ge> rc_max_consecutive_losses (rm_config rm)
           then rm\<lparr>rm_is_halted := True,
                   rm_halt_reason := Some (consecutive_halt_reason f (rm_consecutive_losses rm))\<rparr>
           else rm
      else rm)"


text \<open>\<open>stamp\<close> is the ISO text of the time of the call.\<close>

definition record_trade :: "string \<Rightarrow> risk_manager \<Rightarrow> real \<Rightarrow> real \<Rightarrow> string \<Rightarrow> risk_manager" where
  "record_trade stamp rm pnl pnl_pct symbol =
     (let h1 = rm_trade_history rm @
                 [\<lparr>tr_timestamp = stamp, tr_symbol = symbol, tr_pnl = pnl, tr_pnl_pct = pnl_pct\<rparr>];
          h2 = (if length h1 > 200 then tl h1 else h1)
      in rm\<lparr>rm_trade_history := h2,
            rm_consecutive_losses :=
              (if pnl_pct < 0 then rm_consecutive_losses rm + 1 else 0)\<rparr>)"

record position_sizing =
  position_pct :: real
  position_usd :: real
  max_loss_usd :: real
  max_loss_pct_of_equity :: real
  sizing_phase :: growth_phase

definition calculate_position_size ::
  "risk_manager \<Rightarrow> real \<Rightarrow> real \<Rightarrow> real \<Rightarrow> error + position_sizing" where
  "calculate_position_size rm equity signal_strength stop_distance_pct =
     (let max_pct = get_max_position_pct rm (Some equity);
          size_pct0 = max_pct * max 0.5 signal_strength;
          size_pct1 = min max_pct size_pct0;
          position_usd0 = equity * size_pct1
      in if position_usd0 < min_trade_value_usd (rm_config rm)
         then if equity = 0 then Inl ZeroDivisionError
              else let position_usd1 = min_trade_value_usd (rm_config rm);
                       size_pct2 = position_usd1 / equity
                   in Inr \<lparr>position_pct = size_pct2, position_usd = position_usd1,
                           max_loss_usd = position_usd1 * stop_distance_pct,
                           max_loss_pct_of_equity = size_pct2 * stop_distance_pct,
                           sizing_phase = get_phase rm (Some equity)\<rparr>
         else Inr \<lparr>position_pct = size_pct1, position_usd = position_usd0,
                   max_loss_usd = position_usd0 * stop_distance_pct,
                   max_loss_pct_of_equity = size_pct1 * stop_distance_pct,
                   sizing_phase = get_phase rm (Some equity)\<rparr>)"


section \<open>tms/strategies/hyper_growth_engine.py\<close>

subsection \<open>CompoundGrowthTracker\<close>

record growth_tracker =
  starting_equity :: real
  target_equity :: real
  current_equity :: real
  trade_returns :: "real list"
  win_count :: int
  loss_count :: int

text \<open>\<open>CompoundGrowthTracker.update\<close>.\<close>

definition growth_tracker_update :: "growth_tracker \<Rightarrow> real \<Rightarrow> growth_tracker" where
  "growth_tracker_update t trade_return_pct =
     t\<lparr>trade_returns := trade_returns t @ [trade_return_pct],
       win_count := (if trade_return_pct > 0 then win_count t + 1 else win_count t),
       loss_count := (if trade_return_pct > 0 then loss_count t else loss_count t + 1),
       current_equity := current_equity t * (1 + trade_return_pct)\<rparr>"

definition progress_pct :: "growth_tracker \<Rightarrow> error + real" where
  "progress_pct t =
     (let needed = target_equity t - starting_equity t;
          achieved = current_equity t - starting_equity t
      in if needed = 0 then Inl ZeroDivisionError
         else Inr (max 0 (min 1 (achieved / needed))))"

definition get_aggression_multiplier :: "growth_tracker \<Rightarrow> error + real" where
  "get_aggression_multiplier t =
     (case progress_pct t of
        Inl e \<Rightarrow> Inl e
      | Inr p \<Rightarrow> Inr (if p < 0.5 then 1.0 else if p < 0.8 then 0.9 else 0.8))"

subsection \<open>HyperGrowthConfig and the engine state\<close>

text \<open>The configuration fields that the modelled methods read, with their defaults.\<close>

record hyper_growth_config =
  base_position_pct :: real
  strong_signal_pct :: real
  max_single_position_pct :: real
  min_position_pct :: real
  pyramid_enabled :: bool
  pyramid_add1_trigger_pct :: real
  pyramid_add2_trigger_pct :: real
  pyramid_add3_trigger_pct :: real
  pyramid_add1_size_pct :: real
  pyramid_add2_size_pct :: real
  pyramid_add3_size_pct :: real
  max_pyramid_adds :: int
  initial_stop_atr_mult :: real
  hard_stop_pct :: real
  partial_exit_r :: real
  full_exit_r :: real
  min_signal_strength :: real
  strong_signal_threshold :: real
  min_sources_agreeing :: int
  max_trades_per_day :: int
  max_concurrent_positions :: int
  signal_cooldown_seconds :: int
  hg_max_consecutive_losses :: int

definition default_hyper_config :: hyper_growth_config where
  "default_hyper_config =
     \<lparr>base_position_pct = 0.30, strong_signal_pct = 0.40, max_single_position_pct = 0.45,
      min_position_pct = 0.15, pyramid_enabled = True,
      pyramid_add1_trigger_pct = 0.03, pyramid_add2_trigger_pct = 0.06,
      pyramid_add3_trigger_pct = 0.10, pyramid_add1_size_pct = 0.15,
      pyramid_add2_size_pct = 0.10, pyramid_add3_size_pct = 0.08, max_pyramid_adds = 3,
      initial_stop_atr_mult = 2.0, hard_stop_pct = 0.04, partial_exit_r = 4.0,
      full_exit_r = 8.0, min_signal_strength = 0.35, strong_signal_threshold = 0.70,
      min_sources_agreeing = 2, max_trades_per_day = 30, max_concurrent_positions = 4,
      signal_cooldown_seconds = 60, hg_max_consecutive_losses = 5\<rparr>"

text \<open>The direction strings \<open>"bull"\<close>, \<open>"bear"\<close>, \<open>"neutral"\<close> and the two signal types.\<close>

datatype direction = Bull | Bear | Neutral

datatype signal_type = LONG | SHORT

text \<open>An entry of \<open>_active_positions\<close>.\<close>

record active_position =
  ap_entry_price :: real
  ap_direction :: direction
  ap_stop_loss :: real
  ap_take_profit :: real
  ap_partial_target :: real
  ap_atr :: real
  ap_position_pct :: real
  ap_entry_time :: real
  ap_peak_price :: real
  ap_pyramid_count :: int

text \<open>A \<open>Signal\<close> with the metadata entries of entry and pyramid signals.\<close>

record hg_signal =
  hs_symbol :: string
  hs_signal_type :: signal_type
  hs_strength :: real
  hs_stop_loss :: real
  hs_take_profit :: real
  hs_position_pct :: real
  hs_is_pyramid :: bool
  hs_pyramid_level :: int
  hs_active_sources :: "string list"
  hs_partial_target :: "real option"

record closed_trade =
  ct_symbol :: string
  ct_entry_price :: real
  ct_exit_price :: real
  ct_side :: string
  ct_pnl_pct :: real
  ct_timestamp :: string
  ct_growth_progress :: real

text \<open>
  The engine. Dictionaries are association lists in insertion order, read with
  \<^const>\<open>map_of\<close> and written with \<^const>\<open>AList.update\<close> and \<^const>\<open>AList.delete\<close>, so
  keys stay distinct and \<open>len\<close> is the length. \<open>_source_accuracy\<close> maps a source name to
  (correct, total).
\<close>

record hyper_growth_engine =
  eng_config :: hyper_growth_config
  eng_growth_tracker :: growth_tracker
  eng_source_accuracy :: "(string \<times> real \<times> real) list"
  eng_active_positions :: "(string \<times> active_position) list"
  eng_pyramid_counts :: "(string \<times> int) list"
  eng_last_signal_time :: "(string \<times> real) list"
  eng_daily_trades :: int
  eng_last_trade_date :: "string option"
  eng_consecutive_losses :: int
  eng_is_halted :: bool
  eng_trade_history :: "closed_trade list"

definition init_engine :: "hyper_growth_config \<Rightarrow> real \<Rightarrow> real \<Rightarrow> hyper_growth_engine" where
  "init_engine cfg starting target =
     \<lparr>eng_config = cfg,
      eng_growth_tracker =
        \<lparr>starting_equity = starting, target_equity = target, current_equity = starting,
         trade_returns = [], win_count = 0, loss_count = 0\<rparr>,
      eng_source_accuracy =
        [(''volume_explosion'', 1, 2), (''ema_ribbon'', 1, 2), (''rsi_surge'', 1, 2),
         (''vwap_reclaim'', 1, 2), (''bb_squeeze'', 1, 2), (''hh_hl_structure'', 1, 2),
         (''candle_pattern'', 1, 2), (''order_flow'', 1, 2)],
      eng_active_positions = [], eng_pyramid_counts = [], eng_last_signal_time = [],
      eng_daily_trades = 0, eng_last_trade_date = None, eng_consecutive_losses = 0,
      eng_is_halted = False, eng_trade_history = []\<rparr>"

text \<open>
  A market state. The OHLCV window is represented by what the engine derives from it:
  its length (\<open>None\<close> when there is no window), the readings (source name, score,
  direction) of the eight \<open>_signal_*\<close> methods in dictionary order, and the value of
  \<open>_calculate_atr\<close>.
\<close>

record market_state =
  ms_symbol :: string
  ms_current_price :: real
  ms_equity :: "real option"
  ms_regime :: "string option"
  ms_ohlcv_len :: "nat option"
  ms_sources :: "(string \<times> real \<times> direction) list"
  ms_atr :: real

subsection \<open>Signal fusion\<close>

definition get_source_weight :: "hyper_growth_engine \<Rightarrow> string \<Rightarrow> real" where
  "get_source_weight eng source_name =
     (let (correct, total) = dict_get (map_of (eng_source_accuracy eng) source_name) (1, 2);
          accuracy = correct / max total 1
      in max 0.3 accuracy)"

record fusion_acc =
  bull_score :: real
  bear_score :: real
  total_weight :: real
  active_bull_sources :: "string list"
  active_bear_sources :: "string list"

text \<open>One pass of the loop over \<open>sources.items()\<close>.\<close>

definition fuse_step ::
  "fmt \<Rightarrow> hyper_growth_engine \<Rightarrow> bool \<Rightarrow> bool \<Rightarrow> string \<times> real \<times> direction
     \<Rightarrow> fusion_acc \<Rightarrow> fusion_acc" where
  "fuse_step f eng regime_bull_bias regime_bear_bias reading acc =
     (case reading of (source_name, score, dir) \<Rightarrow>
        if score \<le> 0 then acc
        else let weight = get_source_weight eng source_name
             in (case dir of
                   Bull \<Rightarrow>
                     let w = (if regime_bull_bias then weight * 1.2 else weight)
                     in acc\<lparr>bull_score := bull_score acc + score * w,
                            total_weight := total_weight acc + w,
                            active_bull_sources := active_bull_sources acc @
                              [source_name @ ''('' @ fix2 f score @ '')'']\<rparr>
                 | Bear \<Rightarrow>
                     let w = (if regime_bear_bias then weight * 1.2 else weight)
                     in acc\<lparr>bear_score := bear_score acc + score * w,
                            total_weight := total_weight acc + w,
                            active_bear_sources := active_bear_sources acc @
                              [source_name @ ''('' @ fix2 f score @ '')'']\<rparr>
                 | Neutral \<Rightarrow> acc))"

fun fuse_loop ::
  "fmt \<Rightarrow> hyper_growth_engine \<Rightarrow> bool \<Rightarrow> bool \<Rightarrow> (string \<times> real \<times> direction) list
     \<Rightarrow> fusion_acc \<Rightarrow> fusion_acc" where
  "fuse_loop f eng bb rb [] acc = acc"
| "fuse_loop f eng bb rb (reading # rest) acc =
     fuse_loop f eng bb rb rest (fuse_step f eng bb rb reading acc)"

text \<open>The totals the loop leaves for a regime, and the two normalised scores.\<close>

definition fusion_totals ::
  "fmt \<Rightarrow> hyper_growth_engine \<Rightarrow> (string \<times> real \<times> direction) list \<Rightarrow> string \<Rightarrow> fusion_acc" where
  "fusion_totals f eng sources regime =
     (let regime_bull_bias = (regime = ''bull'' \<or> regime = ''high_vol'');
          regime_bear_bias = (regime = ''bear'')
      in fuse_loop f eng regime_bull_bias regime_bear_bias sources
           \<lparr>bull_score = 0, bear_score = 0, total_weight = 0,
            active_bull_sources = [], active_bear_sources = []\<rparr>)"

definition bull_norm :: "fusion_acc \<Rightarrow> real" where
  "bull_norm acc = bull_score acc / total_weight acc"

definition bear_norm :: "fusion_acc \<Rightarrow> real" where
  "bear_norm acc = bear_score acc / total_weight acc"

definition fuse_signals ::
  "fmt \<Rightarrow> hyper_growth_engine \<Rightarrow> (string \<times> real \<times> direction) list \<Rightarrow> string
     \<Rightarrow> real \<times> direction \<times> string list" where
  "fuse_signals f eng sources regime =
     (let acc = fusion_totals f eng sources regime
      in if total_weight acc \<le> 0 then (0, Neutral, [])
         else let bull_count = int (length (active_bull_sources acc));
                  bear_count = int (length (active_bear_sources acc))
              in if bull_norm acc > bear_norm acc \<and>
                    bull_count \<ge> min_sources_agreeing (eng_config eng)
                 then (bull_norm acc, Bull, active_bull_sources acc)
                 else if bear_norm acc > bull_norm acc \<and>
                    bear_count \<ge> min_sources_agreeing (eng_config eng)
                 then (bear_norm acc, Bear, active_bear_sources acc)
                 else (0, Neutral, []))"

text \<open>The readings that the loop adds to a direction: positive score, that direction.\<close>

definition contributing ::
  "direction \<Rightarrow> (string \<times> real \<times> direction) list \<Rightarrow> (string \<times> real \<times> direction) list" where
  "contributing d sources = filter (\<lambda>(source_name, score, dir). 0 < score \<and> dir = d) sources"

subsection \<open>Position size and entry levels\<close>

text \<open>\<open>HyperGrowthEngine._calculate_position_size\<close>; the \<open>equity\<close> argument is not read.\<close>

definition hg_calculate_position_size ::
  "hyper_growth_engine \<Rightarrow> real \<Rightarrow> real \<Rightarrow> error + real" where
  "hg_calculate_position_size eng signal_strength equity =
     (let cfg = eng_config eng
      in case get_aggression_multiplier (eng_growth_tracker eng) of
           Inl e \<Rightarrow> Inl e
         | Inr aggression \<Rightarrow>
             if signal_strength < strong_signal_threshold cfg \<and>
                strong_signal_threshold cfg - min_signal_strength cfg + 1 / 10 ^ 9 = 0
             then Inl ZeroDivisionError
             else
               let size_pct0 =
                     (if signal_strength \<ge> strong_signal_threshold cfg
                      then strong_signal_pct cfg
                      else let t = (signal_strength - min_signal_strength cfg) /
                                   (strong_signal_threshold cfg - min_signal_strength cfg
                                      + 1 / 10 ^ 9)
                           in base_position_pct cfg +
                              t * (strong_signal_pct cfg - base_position_pct cfg));
                   size_pct1 = size_pct0 * aggression;
                   size_pct2 = min size_pct1 (max_single_position_pct cfg);
                   size_pct3 = max size_pct2 (min_position_pct cfg)
               in Inr size_pct3)"

text \<open>
  The stop, take-profit, partial target and risk per share that \<open>generate_signals\<close>
  computes for an entry; \<open>None\<close> for the direction that is neither bull nor bear.
\<close>

definition entry_levels ::
  "hyper_growth_config \<Rightarrow> direction \<Rightarrow> real \<Rightarrow> real \<Rightarrow> (real \<times> real \<times> real \<times> real) option" where
  "entry_levels cfg dir current_price atr =
     (case dir of
        Bull \<Rightarrow>
          let stop_loss0 = current_price - atr * initial_stop_atr_mult cfg;
              hard_stop = current_price * (1 - hard_stop_pct cfg);
              stop_loss = max stop_loss0 hard_stop;
              risk_per_share = current_price - stop_loss;
              take_profit = current_price + risk_per_share * full_exit_r cfg;
              partial_target = current_price + risk_per_share * partial_exit_r cfg
          in Some (stop_loss, take_profit, partial_target, risk_per_share)
      | Bear \<Rightarrow>
          let stop_loss0 = current_price + atr * initial_stop_atr_mult cfg;
              hard_stop = current_price * (1 + hard_stop_pct cfg);
              stop_loss = min stop_loss0 hard_stop;
              risk_per_share = stop_loss - current_price;
              take_profit = current_price - risk_per_share * full_exit_r cfg;
              partial_target = current_price - risk_per_share * partial_exit_r cfg
          in Some (stop_loss, take_profit, partial_target, risk_per_share)
      | Neutral \<Rightarrow> None)"

subsection \<open>Pyramiding, signal generation and position close\<close>

text \<open>\<open>xs[i]\<close>: a negative index counts from the end, an index out of range raises.\<close>

definition py_index :: "'a list \<Rightarrow> int \<Rightarrow> error + 'a" where
  "py_index xs i =
     (if 0 \<le> i \<and> i < int (length xs) then Inr (xs ! nat i)
      else if i < 0 \<and> - int (length xs) \<le> i then Inr (xs ! nat (int (length xs) + i))
      else Inl IndexError)"

definition check_pyramid ::
  "hyper_growth_engine \<Rightarrow> market_state \<Rightarrow> error + (hyper_growth_engine \<times> hg_signal option)" where
  "check_pyramid eng ms =
     (let cfg = eng_config eng; symbol = ms_symbol ms
      in case map_of (eng_active_positions eng) symbol of
           None \<Rightarrow> Inr (eng, None)
         | Some pos \<Rightarrow>
             if \<not> pyramid_enabled cfg then Inr (eng, None)
             else
               let current_price = ms_current_price ms;
                   entry_price = ap_entry_price pos;
                   dir = ap_direction pos;
                   pyramid_count = ap_pyramid_count pos
               in if pyramid_count \<ge> max_pyramid_adds cfg then Inr (eng, None)
                  else if entry_price = 0 then Inl ZeroDivisionError
                  else
                    let gain_pct = (if dir = Bull
                                    then (current_price - entry_price) / entry_price
                                    else (entry_price - current_price) / entry_price);
                        triggers = [pyramid_add1_trigger_pct cfg, pyramid_add2_trigger_pct cfg,
                                    pyramid_add3_trigger_pct cfg];
                        sizes = [pyramid_add1_size_pct cfg, pyramid_add2_size_pct cfg,
                                 pyramid_add3_size_pct cfg]
                    in case py_index triggers pyramid_count of
                         Inl e \<Rightarrow> Inl e
                       | Inr trigger \<Rightarrow>
                        (case py_index sizes pyramid_count of
                           Inl e \<Rightarrow> Inl e
                         | Inr add_size \<Rightarrow>
                             if gain_pct < trigger then Inr (eng, None)
                             else
                               let new_stop = (if dir = Bull then current_price - ap_atr pos
                                               else current_price + ap_atr pos);
                                   sig = \<lparr>hs_symbol = symbol,
                                          hs_signal_type = (if dir = Bull then LONG else SHORT),
                                          hs_strength = 0.8, hs_stop_loss = new_stop,
                                          hs_take_profit = ap_take_profit pos,
                                          hs_position_pct = add_size, hs_is_pyramid = True,
                                          hs_pyramid_level = pyramid_count + 1,
                                          hs_active_sources = [], hs_partial_target = None\<rparr>;
                                   pos' = pos\<lparr>ap_pyramid_count := pyramid_count + 1,
                                              ap_peak_price := current_price\<rparr>
                               in Inr (eng\<lparr>eng_active_positions :=
                                             AList.update symbol pos' (eng_active_positions eng)\<rparr>,
                                       Some sig)))"

text \<open>\<open>market_state.equity or 100.0\<close> and \<open>market_state.regime or "neutral"\<close>.\<close>

definition equity_of :: "market_state \<Rightarrow> real" where
  "equity_of ms = (case ms_equity ms of None \<Rightarrow> 100 | Some e \<Rightarrow> if e = 0 then 100 else e)"

definition regime_of :: "market_state \<Rightarrow> string" where
  "regime_of ms =
     (case ms_regime ms of None \<Rightarrow> ''neutral'' | Some r \<Rightarrow> if r = [] then ''neutral'' else r)"

text \<open>The daily trade limit starts again on a new date.\<close>

definition reset_daily_counter :: "string \<Rightarrow> hyper_growth_engine \<Rightarrow> hyper_growth_engine" where
  "reset_daily_counter today eng =
     (if eng_last_trade_date eng \<noteq> Some today
      then eng\<lparr>eng_daily_trades := 0, eng_last_trade_date := Some today\<rparr>
      else eng)"

text \<open>
  \<open>generate_signals\<close>. \<open>now\<close> is the reading of the clock in seconds and \<open>today\<close> the UTC
  date of the call. The state is returned with the list of signals, since the method
  updates the daily counter, the cooldown table and the active positions.
\<close>

definition generate_signals ::
  "fmt \<Rightarrow> real \<Rightarrow> string \<Rightarrow> hyper_growth_engine \<Rightarrow> market_state
     \<Rightarrow> error + (hyper_growth_engine \<times> hg_signal list)" where
  "generate_signals f now today eng0 ms =
     (let cfg = eng_config eng0;
          symbol = ms_symbol ms;
          current_price = ms_current_price ms;
          equity = equity_of ms;
          regime = regime_of ms
      in if eng_is_halted eng0 then Inr (eng0, [])
         else if (case ms_ohlcv_len ms of None \<Rightarrow> True | Some n \<Rightarrow> n < 20) then Inr (eng0, [])
         else
           let eng = reset_daily_counter today eng0
           in if eng_daily_trades eng \<ge> max_trades_per_day cfg then Inr (eng, [])
              else if eng_consecutive_losses eng \<ge> hg_max_consecutive_losses cfg
              then Inr (eng, [])
              else if (case map_of (eng_last_signal_time eng) symbol of
                         None \<Rightarrow> False
                       | Some last_signal \<Rightarrow>
                           now - last_signal < real_of_int (signal_cooldown_seconds cfg))
              then Inr (eng, [])
              else if int (length (eng_active_positions eng)) \<ge> max_concurrent_positions cfg
              then (if map_of (eng_active_positions eng) symbol \<noteq> None
                    then (case check_pyramid eng ms of
                            Inl e \<Rightarrow> Inl e
                          | Inr (eng', None) \<Rightarrow> Inr (eng', [])
                          | Inr (eng', Some pyramid_signal) \<Rightarrow> Inr (eng', [pyramid_signal]))
                    else Inr (eng, []))
              else
                (case fuse_signals f eng (ms_sources ms) regime of
                   (combined_score, dir, active_sources) \<Rightarrow>
                     if combined_score < min_signal_strength cfg \<or> dir = Neutral
                     then Inr (eng, [])
                     else
                       let atr = ms_atr ms
                       in case hg_calculate_position_size eng combined_score equity of
                            Inl e \<Rightarrow> Inl e
                          | Inr pos_pct \<Rightarrow>
                             (case entry_levels cfg dir current_price atr of
                                None \<Rightarrow> Inr (eng, [])
                              | Some (stop_loss, take_profit, partial_target, risk_per_share) \<Rightarrow>
                                  let sig = \<lparr>hs_symbol = symbol,
                                             hs_signal_type = (if dir = Bull then LONG else SHORT),
                                             hs_strength = combined_score,
                                             hs_stop_loss = stop_loss,
                                             hs_take_profit = take_profit,
                                             hs_position_pct = pos_pct, hs_is_pyramid = False,
                                             hs_pyramid_level = 0,
                                             hs_active_sources = active_sources,
                                             hs_partial_target = Some partial_target\<rparr>;
                                      pos = \<lparr>ap_entry_price = current_price, ap_direction = dir,
                                             ap_stop_loss = stop_loss,
                                             ap_take_profit = take_profit,
                                             ap_partial_target = partial_target, ap_atr = atr,
                                             ap_position_pct = pos_pct, ap_entry_time = now,
                                             ap_peak_price = current_price,
                                             ap_pyramid_count = 0\<rparr>
                                  in Inr (eng\<lparr>eng_last_signal_time :=
                                                 AList.update symbol now (eng_last_signal_time eng),
                                               eng_daily_trades := eng_daily_trades eng + 1,
                                               eng_active_positions :=
                                                 AList.update symbol pos
                                                   (eng_active_positions eng)\<rparr>,
                                          [sig]))))"

text \<open>
  \<open>on_position_close\<close>. The trade log entry reads \<open>progress_pct\<close>, which raises when the
  target equals the starting equity; the statements before it have taken effect by
  then. \<open>stamp\<close> is the ISO text of the time of the call.
\<close>

definition close_bookkeeping ::
  "hyper_growth_engine \<Rightarrow> string \<Rightarrow> real \<Rightarrow> hyper_growth_engine" where
  "close_bookkeeping eng symbol pnl_pct =
     eng\<lparr>eng_growth_tracker := growth_tracker_update (eng_growth_tracker eng) pnl_pct,
         eng_consecutive_losses :=
           (if pnl_pct > 0 then 0 else eng_consecutive_losses eng + 1),
         eng_active_positions := AList.delete symbol (eng_active_positions eng),
         eng_pyramid_counts := AList.delete symbol (eng_pyramid_counts eng)\<rparr>"

definition on_position_close ::
  "string \<Rightarrow> hyper_growth_engine \<Rightarrow> string \<Rightarrow> real \<Rightarrow> real \<Rightarrow> string \<Rightarrow> real
     \<Rightarrow> error + hyper_growth_engine" where
  "on_position_close stamp eng symbol entry_price exit_price side pnl_pct =
     (let eng1 = close_bookkeeping eng symbol pnl_pct
      in case progress_pct (eng_growth_tracker eng1) of
           Inl e \<Rightarrow> Inl e
         | Inr progress \<Rightarrow>
             Inr (eng1\<lparr>eng_trade_history := eng_trade_history eng1 @
                         [\<lparr>ct_symbol = symbol, ct_entry_price = entry_price,
                           ct_exit_price = exit_price, ct_side = side, ct_pnl_pct = pnl_pct,
                           ct_timestamp = stamp, ct_growth_progress = progress\<rparr>]\<rparr>))"

section \<open>tms/memecoin/memecoin_engine.py\<close>

record memecoin_position =
  token_mint :: string
  token_symbol :: string
  token_name :: string
  entry_price :: real
  entry_amount_sol :: real
  entry_amount_tokens :: real
  entry_time :: string
  entry_reason :: string
  current_price :: real
  current_value_sol :: real
  unrealized_pnl_pct :: real
  peak_price :: real
  peak_pnl_pct :: real
  stop_loss_pct :: real
  trailing_stop_pct :: real
  take_profit_levels :: "real list"
  partial_exits_done :: "real list"
  safety_score :: real
  is_active :: bool
  exit_price :: real
  exit_time :: string
  exit_reason :: string
  realized_pnl_pct :: real

text \<open>The position that \<open>execute_buy\<close> creates: the dataclass defaults, price and peak at entry.\<close>

definition open_position ::
  "string \<Rightarrow> string \<Rightarrow> string \<Rightarrow> real \<Rightarrow> real \<Rightarrow> real \<Rightarrow> string \<Rightarrow> string \<Rightarrow> real
     \<Rightarrow> memecoin_position" where
  "open_position mint symbol name price amount_sol amount_tokens time reason safety =
     \<lparr>token_mint = mint, token_symbol = symbol, token_name = name, entry_price = price,
      entry_amount_sol = amount_sol, entry_amount_tokens = amount_tokens, entry_time = time,
      entry_reason = reason, current_price = price, current_value_sol = 0,
      unrealized_pnl_pct = 0, peak_price = price, peak_pnl_pct = 0,
      stop_loss_pct = - 0.25, trailing_stop_pct = 0.30,
      take_profit_levels = [2, 5, 10, 20, 50, 100], partial_exits_done = [],
      safety_score = safety, is_active = True, exit_price = 0, exit_time = [],
      exit_reason = [], realized_pnl_pct = 0\<rparr>"

definition update_price :: "memecoin_position \<Rightarrow> real \<Rightarrow> memecoin_position" where
  "update_price pos new_price =
     (let p1 = pos\<lparr>current_price := new_price\<rparr>;
          p2 = (if entry_price p1 > 0
                then p1\<lparr>unrealized_pnl_pct := (new_price - entry_price p1) / entry_price p1\<rparr>
                else p1);
          p3 = (if new_price > peak_price p2
                then p2\<lparr>peak_price := new_price, peak_pnl_pct := unrealized_pnl_pct p2\<rparr>
                else p2)
      in if entry_price p3 > 0
         then p3\<lparr>current_value_sol := entry_amount_sol p3 * (1 + unrealized_pnl_pct p3)\<rparr>
         else p3)"

text \<open>The trail that \<open>should_exit\<close> selects from the peak gain (it does so when the peak gain is positive).\<close>

definition select_trail :: "memecoin_position \<Rightarrow> real" where
  "select_trail pos =
     (if peak_pnl_pct pos \<ge> 10.0 then 0.15
      else if peak_pnl_pct pos \<ge> 5.0 then 0.20
      else if peak_pnl_pct pos \<ge> 2.0 then 0.25
      else if peak_pnl_pct pos \<ge> 1.0 then 0.30
      else if peak_pnl_pct pos \<ge> 0.5 then 0.35
      else trailing_stop_pct pos)"

definition should_exit :: "fmt \<Rightarrow> memecoin_position \<Rightarrow> bool \<times> string" where
  "should_exit f pos =
     (if \<not> is_active pos then (False, [])
      else if unrealized_pnl_pct pos \<le> stop_loss_pct pos
      then (True, ''Stop loss: '' @ pct1 f (unrealized_pnl_pct pos))
      else if peak_pnl_pct pos > 0
      then let trail = select_trail pos;
               drawdown_from_peak = (if peak_price pos > 0
                                     then (peak_price pos - current_price pos) / peak_price pos
                                     else 0)
           in if drawdown_from_peak \<ge> trail
              then (True, ''Trailing stop: '' @ pct1 f drawdown_from_peak
                            @ '' from peak (trail='' @ pct0 f trail @ '')'')
              else (False, [])
      else (False, []))"

definition get_partial_exit_level :: "memecoin_position \<Rightarrow> real option" where
  "get_partial_exit_level pos =
     find (\<lambda>level. unrealized_pnl_pct pos \<ge> level \<and> level \<notin> set (partial_exits_done pos))
       (take_profit_levels pos)"

text \<open>\<open>int(x)\<close> on a float truncates toward zero.\<close>

definition py_int :: "real \<Rightarrow> int" where
  "py_int x = (if x \<ge> 0 then \<lfloor>x\<rfloor> else \<lceil>x\<rceil>)"

text \<open>The fields of \<open>MemecoinEngine\<close> that \<open>execute_sell\<close> and \<open>manage_positions\<close> touch.\<close>

record memecoin_engine =
  me_positions :: "(string \<times> memecoin_position) list"
  me_closed_positions :: "memecoin_position list"
  me_winning_trades :: int
  me_total_pnl_sol :: real
  me_daily_pnl_sol :: real
  me_best_trade_pnl_pct :: real
  me_worst_trade_pnl_pct :: real

datatype sell_outcome = SellError string | Sold real real string

text \<open>
  \<open>execute_sell\<close>. \<open>swap_ok\<close> is whether the swap on the exchange succeeded and \<open>stamp\<close>
  the ISO text of the time of the call; the trade callback is outside the model.
\<close>

definition execute_sell ::
  "bool \<Rightarrow> string \<Rightarrow> memecoin_engine \<Rightarrow> string \<Rightarrow> real \<Rightarrow> string
     \<Rightarrow> memecoin_engine \<times> sell_outcome" where
  "execute_sell swap_ok stamp eng mint sell_pct reason =
     (case map_of (me_positions eng) mint of
        None \<Rightarrow> (eng, SellError ''No position found'')
      | Some position \<Rightarrow>
          let sell_amount = py_int (entry_amount_tokens position * sell_pct)
          in if sell_amount \<le> 0 then (eng, SellError ''Nothing to sell'')
             else if \<not> swap_ok then (eng, SellError ''Swap failed'')
             else if sell_pct \<ge> 0.99
             then
               let closed = position\<lparr>is_active := False, exit_time := stamp,
                                      exit_reason := reason,
                                      exit_price := current_price position,
                                      realized_pnl_pct := unrealized_pnl_pct position\<rparr>;
                   pnl_sol = entry_amount_sol closed * realized_pnl_pct closed
               in (eng\<lparr>me_winning_trades :=
                          (if realized_pnl_pct closed > 0 then me_winning_trades eng + 1
                           else me_winning_trades eng),
                        me_total_pnl_sol := me_total_pnl_sol eng + pnl_sol,
                        me_daily_pnl_sol := me_daily_pnl_sol eng + pnl_sol,
                        me_best_trade_pnl_pct :=
                          (if realized_pnl_pct closed > me_best_trade_pnl_pct eng
                           then realized_pnl_pct closed else me_best_trade_pnl_pct eng),
                        me_worst_trade_pnl_pct :=
                          (if realized_pnl_pct closed < me_worst_trade_pnl_pct eng
                           then realized_pnl_pct closed else me_worst_trade_pnl_pct eng),
                        me_closed_positions := me_closed_positions eng @ [closed],
                        me_positions := AList.delete mint (me_positions eng)\<rparr>,
                   Sold sell_pct (realized_pnl_pct closed) reason)
             else
               let partial = position\<lparr>
                     partial_exits_done :=
                       partial_exits_done position @ [unrealized_pnl_pct position],
                     entry_amount_tokens :=
                       real_of_int (py_int (entry_amount_tokens position * (1 - sell_pct))),
                     entry_amount_sol := entry_amount_sol position * (1 - sell_pct)\<rparr>
               in (eng\<lparr>me_positions := AList.update mint partial (me_positions eng)\<rparr>,
                   Sold sell_pct (unrealized_pnl_pct partial) reason))"

text \<open>
  One pass of the loop of \<open>manage_positions\<close>, for the position at \<open>mint\<close>; \<open>price\<close> is
  what the price feed returned.
\<close>

definition manage_position ::
  "fmt \<Rightarrow> bool \<Rightarrow> string \<Rightarrow> memecoin_engine \<Rightarrow> string \<Rightarrow> real option \<Rightarrow> memecoin_engine" where
  "manage_position f swap_ok stamp eng mint price =
     (case map_of (me_positions eng) mint of
        None \<Rightarrow> eng
      | Some position \<Rightarrow>
          if \<not> is_active position then eng
          else
            let position1 = (case price of
                               None \<Rightarrow> position
                             | Some p \<Rightarrow> if p = 0 then position else update_price position p);
                eng1 = eng\<lparr>me_positions := AList.update mint position1 (me_positions eng)\<rparr>
            in case should_exit f position1 of
                 (leave, why) \<Rightarrow>
                   if leave then fst (execute_sell swap_ok stamp eng1 mint 1.0 why)
                   else
                     (case get_partial_exit_level position1 of
                        None \<Rightarrow> eng1
                      | Some partial_level \<Rightarrow>
                          fst (execute_sell swap_ok stamp eng1 mint 0.20
                                 (''Partial profit at '' @ pct0 f partial_level @ '' gain''))))"



section \<open>Concrete inputs\<close>

text \<open>A formatter that renders every number as the same short text, for evaluation.\<close>

definition plain_fmt :: fmt where
  "plain_fmt = \<lparr>pct0 = (\<lambda>x. ''0%''), pct1 = (\<lambda>x. ''0.0%''), fix1 = (\<lambda>x. ''0.0''),
                 fix2 = (\<lambda>x. ''0.00''), dec = (\<lambda>n. ''0'')\<rparr>"

definition fresh_agent :: verifier_agent where
  "fresh_agent = \<lparr>signals_verified = 0, signals_rejected = 0, rejection_reasons = []\<rparr>"

text \<open>No environment variable set, five positions allowed, the clock at the given time.\<close>

definition env_at :: "nat \<Rightarrow> nat \<Rightarrow> gate_env" where
  "env_at h m = \<lparr>env_max_drawdown = None, env_max_daily_loss = None, cfg_max_positions = 5,
                 now_et = Some (h, m)\<rparr>"

definition calm_state :: state_dict where
  "calm_state = \<lparr>st_noise_level = None, st_current_drawdown = None, st_daily_pnl_pct = None,
                  st_regime_confidence = Some 0.9\<rparr>"


text \<open>Trades and a monitor with the given lookback and threshold.\<close>

definition losing_trade :: trade where
  "losing_trade = \<lparr>trade_pnl = Some (- 1)\<rparr>"

definition winning_trade :: trade where
  "winning_trade = \<lparr>trade_pnl = Some 2\<rparr>"

definition monitor :: "int \<Rightarrow> real \<Rightarrow> har_detector" where
  "monitor lb th = \<lparr>lookback = lb, threshold = th, alerts = [],
                    strategic_inactivity = False, inactivity_start = None\<rparr>"

text \<open>A manager and an engine as their constructors leave them, with the default configuration.\<close>

definition fresh_manager :: risk_manager where
  "fresh_manager = init_risk_manager default_risk_config ''2024-01-01''"

definition fresh_engine :: hyper_growth_engine where
  "fresh_engine = init_engine default_hyper_config 100 500"

text \<open>A memecoin position as \<open>execute_buy\<close> creates it, entered at the given price.\<close>

definition demo_position :: "real \<Rightarrow> memecoin_position" where
  "demo_position price =
     open_position ''mint1'' ''DEMO'' ''Demo'' price 1 1000 ''2024-01-01T00:00:00'' ''entry'' 80"

text \<open>Scenario C on a position: entered at 100, then the prices 115, 100, 97.\<close>

definition scenario_c :: "real list \<Rightarrow> memecoin_position" where
  "scenario_c prices = foldl update_price (demo_position 100) prices"

text \<open>The same scenario on a position whose \<open>trailing_stop_pct\<close> is \<open>t\<close>.\<close>

definition scenario_c_trailing :: "real \<Rightarrow> real list \<Rightarrow> memecoin_position" where
  "scenario_c_trailing t prices =
     foldl update_price ((demo_position 100)\<lparr>trailing_stop_pct := t\<rparr>) prices"

text \<open>An engine holding the demo position entered at price 1 (1 SOL for 1000 tokens).\<close>

definition demo_engine :: memecoin_engine where
  "demo_engine = \<lparr>me_positions = [(''mint1'', demo_position 1)], me_closed_positions = [],
                   me_winning_trades = 0, me_total_pnl_sol = 0, me_daily_pnl_sol = 0,
                   me_best_trade_pnl_pct = 0, me_worst_trade_pnl_pct = 0\<rparr>"

definition position_at :: "memecoin_engine \<Rightarrow> string \<Rightarrow> memecoin_position" where
  "position_at eng mint = the (map_of (me_positions eng) mint)"

definition manage_twice :: memecoin_engine where
  "manage_twice =
     manage_position plain_fmt True ''t2''
       (manage_position plain_fmt True ''t1'' demo_engine ''mint1'' (Some 3.5))
       ''mint1'' (Some 3.5)"

text \<open>
  The signals a call of \<open>generate_signals\<close> returned, and a market state in which the
  first two sources read bull with the given score and the other six read nothing.
\<close>

definition emitted :: "error + (hyper_growth_engine \<times> hg_signal list) \<Rightarrow> hg_signal list" where
  "emitted r = (case r of Inl e \<Rightarrow> [] | Inr (eng, sigs) \<Rightarrow> sigs)"

definition market_with :: "real \<Rightarrow> market_state" where
  "market_with score =
     \<lparr>ms_symbol = ''SOL/USD'', ms_current_price = 100, ms_equity = Some 100,
      ms_regime = None, ms_ohlcv_len = Some 50,
      ms_sources = [(''volume_explosion'', score, Bull), (''ema_ribbon'', score, Bull),
                    (''rsi_surge'', 0, Neutral), (''vwap_reclaim'', 0, Neutral),
                    (''bb_squeeze'', 0, Neutral), (''hh_hl_structure'', 0, Neutral),
                    (''candle_pattern'', 0, Neutral), (''order_flow'', 0, Neutral)],
      ms_atr = 2\<rparr>"

text \<open>A market state in which two sources read bull and two read bear, all with score 0.9.\<close>

definition market_tied :: market_state where
  "market_tied =
     \<lparr>ms_symbol = ''SOL/USD'', ms_current_price = 100, ms_equity = Some 100,
      ms_regime = None, ms_ohlcv_len = Some 50,
      ms_sources = [(''volume_explosion'', 0.9, Bull), (''ema_ribbon'', 0.9, Bull),
                    (''rsi_surge'', 0.9, Bear), (''vwap_reclaim'', 0.9, Bear),
                    (''bb_squeeze'', 0, Neutral), (''hh_hl_structure'', 0, Neutral),
                    (''candle_pattern'', 0, Neutral), (''order_flow'', 0, Neutral)],
      ms_atr = 2\<rparr>"

section \<open>Properties of the verifier\<close>

text \<open>
  C1. Whenever the absolute signal strength is at most twice the noise level of the state,
  \<open>verify_signal\<close> rejects the signal with the variance-inequality reason (equality
  included); the variance check holds exactly when the absolute strength is strictly above
  twice the noise level, and every accepted signal satisfies it.
\<close>

theorem verify_signal_variance_gate:
  "(\<bar>dict_get (sig_strength sg) 0\<bar> \<le> 2 * dict_get (st_noise_level st) 0.01 \<longrightarrow>
      verify_signal f env va sg st ps = Inr (reject va ''Variance inequality not satisfied''))
   \<and> (check_variance_inequality sg st \<longleftrightarrow>
        \<bar>dict_get (sig_strength sg) 0\<bar> > 2 * dict_get (st_noise_level st) 0.01)
   \<and> (\<forall>va' r. verify_signal f env va sg st ps = Inr (va', True, r) \<longrightarrow>
        \<bar>dict_get (sig_strength sg) 0\<bar> > 2 * dict_get (st_noise_level st) 0.01)"
  by (auto simp: verify_signal_def reject_def check_variance_inequality_def Let_def
           split: if_splits)

theorem verify_signal_variance_gate_witness:
  "\<bar>dict_get (Some (0.02::real)) 0\<bar> \<le> 2 * dict_get (None :: real option) 0.01 \<and>
   verify_signal plain_fmt (env_at 10 0) fresh_agent
     \<lparr>sig_symbol = Some ''AAPL'', sig_strength = Some 0.02, sig_side = Some ''buy''\<rparr>
     calm_state ([] :: unit list)
   = Inr (\<lparr>signals_verified = 0, signals_rejected = 1,
           rejection_reasons = [''Variance inequality not satisfied'']\<rparr>,
          False, ''Variance inequality not satisfied'')"
  using verify_signal_variance_gate
          [of "\<lparr>sig_symbol = Some ''AAPL'', sig_strength = Some 0.02, sig_side = Some ''buy''\<rparr>"
              calm_state plain_fmt "env_at 10 0" fresh_agent "[] :: unit list"]
  by (simp add: dict_get_def calm_state_def fresh_agent_def reject_def)

text \<open>
  C9. The hard-stop test is \<open>hour \<ge> 15 and minute \<ge> 50\<close>. At 16:05, later than 3:50 PM, it
  is false and a long entry that passes the other checks is verified; at 15:55 a sell
  signal is rejected with the hard-stop reason like any other signal.
\<close>

theorem hard_stop_misses_later_hours:
  "is_past_hard_stop (Some (16, 5)) = False
   \<and> verify_signal plain_fmt (env_at 16 5) fresh_agent
       \<lparr>sig_symbol = Some ''AAPL'', sig_strength = Some 1, sig_side = Some ''buy''\<rparr>
       calm_state ([] :: unit list)
     = Inr (\<lparr>signals_verified = 1, signals_rejected = 0, rejection_reasons = []\<rparr>,
            True, ''Signal verified'')
   \<and> verify_signal plain_fmt (env_at 15 55) fresh_agent
       \<lparr>sig_symbol = Some ''AAPL'', sig_strength = Some (- 1), sig_side = Some ''sell''\<rparr>
       calm_state [()]
     = Inr (\<lparr>signals_verified = 0, signals_rejected = 1,
             rejection_reasons = [''Past hard stop time (3:50 PM ET)'']\<rparr>,
            False, ''Past hard stop time (3:50 PM ET)'')"
  by (simp add: verify_signal_def check_variance_inequality_def dict_get_def
        is_past_hard_stop_def reject_def env_at_def fresh_agent_def calm_state_def)

section \<open>Properties of the risk manager\<close>



















text \<open>A halt set by \<open>update_equity\<close> carries one of the three reasons.\<close>

lemma check_halt_conditions_reasons:
  "\<not> rm_is_halted rm \<Longrightarrow> rm_is_halted (check_halt_conditions f rm dd pnl dh ddh) \<Longrightarrow>
     rm_halt_reason (check_halt_conditions f rm dd pnl dh ddh) \<in>
       {Some (daily_halt_reason f pnl dh), Some (drawdown_halt_reason f dd ddh),
        Some (consecutive_halt_reason f (rm_consecutive_losses rm))}"
  by (auto simp: check_halt_conditions_def split: if_splits)



section \<open>Properties of the edge-decay monitor\<close>

lemma slice_from_last:
  "1 \<le> k \<Longrightarrow> slice_from (- k) xs = drop (length xs - nat k) xs"
  by (auto simp: slice_from_def Let_def max_def nat_diff_distrib' intro: arg_cong2[where f=drop])

lemma calculate_har_window:
  assumes "1 \<le> lookback har"
  shows "calculate_har har trade_log =
           (let recent = drop (length trade_log - nat (lookback har)) trade_log
            in if length recent < 5 then 1 / 2
               else real (wins_of recent) / real (length recent))"
  using assms by (auto simp: calculate_har_def slice_from_last Let_def)

lemma calculate_har_short: "length trade_log < 5 \<Longrightarrow> calculate_har har trade_log = 1 / 2"
  by (auto simp: calculate_har_def slice_from_def Let_def)


text \<open>
  C8, as stated, fails: with a threshold above one half the neutral reading 0.5 of a log
  of fewer than five trades counts as decay and the monitor enters inactivity, and with
  lookback 0 the slice \<open>trade_log[-0:]\<close> is the whole log.
\<close>

theorem har_short_log_counterexample:
  "strategic_inactivity (fst (detect_edge_decay plain_fmt 0 (monitor 20 0.6) [])) = True
   \<and> calculate_har (monitor 0 0.4)
        [losing_trade, losing_trade, losing_trade, losing_trade, losing_trade, losing_trade] = 0"
  by (simp add: detect_edge_decay_def calculate_har_def monitor_def slice_from_def
        wins_of_def losing_trade_def dict_get_def Let_def)

text \<open>
  C8, amended. For a lookback of at least 1, \<open>calculate_har\<close> is computed from the last
  at most lookback trades of the log. For every log of fewer than five trades it returns
  exactly 0.5, and when the threshold is at most 0.5 \<open>detect_edge_decay\<close> leaves the monitor
  out of strategic inactivity on such a log.
\<close>

theorem har_window_and_neutral:
  "(1 \<le> lookback har \<longrightarrow>
      calculate_har har trade_log =
        calculate_har har (drop (length trade_log - nat (lookback har)) trade_log)
      \<and> length (drop (length trade_log - nat (lookback har)) trade_log) \<le> nat (lookback har))
   \<and> (length trade_log < 5 \<longrightarrow> calculate_har har trade_log = 1 / 2)
   \<and> (length trade_log < 5 \<and> threshold har \<le> 1 / 2 \<longrightarrow>
        \<not> strategic_inactivity (fst (detect_edge_decay f now har trade_log)))"
proof (intro conjI impI)
  assume lb: "1 \<le> lookback har"
  let ?recent = "drop (length trade_log - nat (lookback har)) trade_log"
  have "drop (length ?recent - nat (lookback har)) ?recent = ?recent"
    by simp
  then show "calculate_har har trade_log = calculate_har har ?recent"
    by (simp add: calculate_har_window[OF lb] Let_def)
  show "length ?recent \<le> nat (lookback har)"
    by simp
next
  assume "length trade_log < 5"
  then show "calculate_har har trade_log = 1 / 2"
    by (rule calculate_har_short)
next
  assume a: "length trade_log < 5 \<and> threshold har \<le> 1 / 2"
  then have "calculate_har har trade_log = 1 / 2"
    by (simp add: calculate_har_short)
  with a show "\<not> strategic_inactivity (fst (detect_edge_decay f now har trade_log))"
    by (simp add: detect_edge_decay_def Let_def)
qed

theorem har_window_and_neutral_witness:
  "calculate_har (monitor 5 0.4)
     [winning_trade, losing_trade, losing_trade, losing_trade, losing_trade, winning_trade]
   = 1 / 5
   \<and> calculate_har (monitor 5 0.4) [losing_trade, losing_trade] = 1 / 2
   \<and> \<not> strategic_inactivity
         (fst (detect_edge_decay plain_fmt 0 (monitor 5 0.4) [losing_trade, losing_trade]))"
proof -
  let ?log = "[winning_trade, losing_trade, losing_trade, losing_trade, losing_trade,
               winning_trade]"
  have lb: "1 \<le> lookback (monitor 5 0.4)" and th: "threshold (monitor 5 0.4) \<le> 1 / 2"
    by (simp_all add: monitor_def)
  have short: "length [losing_trade, losing_trade] < 5"
    by simp
  have "calculate_har (monitor 5 0.4) ?log =
        calculate_har (monitor 5 0.4)
          (drop (length ?log - nat (lookback (monitor 5 0.4))) ?log)"
    using har_window_and_neutral[of "monitor 5 0.4" ?log] lb by blast
  also have "\<dots> = 1 / 5"
    by (simp add: calculate_har_def monitor_def slice_from_def wins_of_def losing_trade_def
          winning_trade_def dict_get_def Let_def)
  finally have one: "calculate_har (monitor 5 0.4) ?log = 1 / 5" .
  from har_window_and_neutral[of "monitor 5 0.4" "[losing_trade, losing_trade]" plain_fmt 0]
    th short one show ?thesis
    by blast
qed

section \<open>Properties of position sizing\<close>

text \<open>
  C2. In \<open>AggressiveRiskManager.calculate_position_size\<close>, with equity 10 in the seed
  phase (maximum 40%), the notional 4 is below the minimum trade value 5 and is raised to
  5, and the position percentage becomes 50%, above the phase maximum it was capped at
  just before; with equity 1 it becomes 500%.
\<close>

theorem min_trade_floor_exceeds_phase_max:
  "calculate_position_size fresh_manager 10 1 0.025 =
     Inr \<lparr>position_pct = 0.5, position_usd = 5, max_loss_usd = 0.125,
          max_loss_pct_of_equity = 0.0125, sizing_phase = SEED\<rparr>
   \<and> get_max_position_pct fresh_manager (Some 10) = 0.4
   \<and> calculate_position_size fresh_manager 1 1 0.025 =
     Inr \<lparr>position_pct = 5, position_usd = 5, max_loss_usd = 0.125,
          max_loss_pct_of_equity = 0.125, sizing_phase = SEED\<rparr>
   \<and> get_max_position_pct fresh_manager (Some 1) = 0.4"
  by (simp add: calculate_position_size_def fresh_manager_def init_risk_manager_def
        default_risk_config_def get_max_position_pct_def get_phase_def Let_def)

text \<open>
  When the notional reaches the minimum trade value, the percentage is within the phase
  maximum; the size of \<open>HyperGrowthEngine._calculate_position_size\<close> is clamped by its
  configuration.
\<close>

lemma scaled_size_bounds:
  fixes m s :: real
  assumes "0 \<le> m"
  shows "m / 2 \<le> min m (m * max 0.5 s)" and "min m (m * max 0.5 s) \<le> m"
proof -
  have "m * (1 / 2) \<le> m * max 0.5 s"
    using assms by (intro mult_left_mono) auto
  then have "m / 2 \<le> m * max 0.5 s" by simp
  moreover have "m / 2 \<le> m" using assms by simp
  ultimately show "m / 2 \<le> min m (m * max 0.5 s)" by (rule min.boundedI[rotated])
  show "min m (m * max 0.5 s) \<le> m" by simp
qed

lemma calculate_position_size_unfloored:
  assumes "0 \<le> get_max_position_pct rm (Some equity)"
    and "min_trade_value_usd (rm_config rm) \<le>
           equity * min (get_max_position_pct rm (Some equity))
                        (get_max_position_pct rm (Some equity) * max 0.5 signal_strength)"
  shows "\<exists>r. calculate_position_size rm equity signal_strength stop = Inr r \<and>
             get_max_position_pct rm (Some equity) / 2 \<le> position_pct r \<and>
             position_pct r \<le> get_max_position_pct rm (Some equity)"
proof -
  let ?m = "get_max_position_pct rm (Some equity)"
  let ?s = "min ?m (?m * max 0.5 signal_strength)"
  let ?r = "\<lparr>position_pct = ?s, position_usd = equity * ?s,
            max_loss_usd = equity * ?s * stop, max_loss_pct_of_equity = ?s * stop,
            sizing_phase = get_phase rm (Some equity)\<rparr>"
  have eq: "calculate_position_size rm equity signal_strength stop = Inr ?r"
    using assms(2) by (simp add: calculate_position_size_def Let_def)
  have "?m / 2 \<le> position_pct ?r \<and> position_pct ?r \<le> ?m"
    using scaled_size_bounds[OF assms(1), of signal_strength]
    by (simp only: position_sizing.select_convs)
  with eq show ?thesis by blast
qed

lemma calculate_position_size_floored:
  assumes "equity \<noteq> 0"
    and "equity * min (get_max_position_pct rm (Some equity))
                      (get_max_position_pct rm (Some equity) * max 0.5 signal_strength)
         < min_trade_value_usd (rm_config rm)"
  shows "\<exists>r. calculate_position_size rm equity signal_strength stop = Inr r \<and>
             position_pct r = min_trade_value_usd (rm_config rm) / equity"
  using assms by (simp add: calculate_position_size_def Let_def)

lemma aggression_total:
  "target_equity t \<noteq> starting_equity t \<Longrightarrow> \<exists>a. get_aggression_multiplier t = Inr a"
  by (simp add: get_aggression_multiplier_def progress_pct_def Let_def)

lemma hg_size_total:
  assumes "target_equity (eng_growth_tracker eng) \<noteq> starting_equity (eng_growth_tracker eng)"
    and "strong_signal_threshold (eng_config eng) - min_signal_strength (eng_config eng)
           + 1 / 10 ^ 9 \<noteq> 0"
  shows "\<exists>p. hg_calculate_position_size eng strength eq = Inr p"
proof -
  from aggression_total[OF assms(1)]
  obtain a where a: "get_aggression_multiplier (eng_growth_tracker eng) = Inr a" ..
  show ?thesis
    unfolding hg_calculate_position_size_def Let_def a sum.case
    using assms(2) by (simp only: if_False simp_thms) blast
qed

lemma hg_size_bounds:
  assumes "hg_calculate_position_size eng strength eq = Inr p"
  shows "min_position_pct (eng_config eng) \<le> p"
    and "min_position_pct (eng_config eng) \<le> max_single_position_pct (eng_config eng) \<Longrightarrow>
           p \<le> max_single_position_pct (eng_config eng)"
  using assms
  by (auto simp: hg_calculate_position_size_def Let_def split: sum.splits if_splits)


lemma hg_size_ok:
  assumes "target_equity (eng_growth_tracker eng) \<noteq> starting_equity (eng_growth_tracker eng)"
    and "strong_signal_threshold (eng_config eng) - min_signal_strength (eng_config eng)
           + 1 / 10 ^ 9 \<noteq> 0"
    and "min_position_pct (eng_config eng) \<le> max_single_position_pct (eng_config eng)"
  shows "\<exists>p. hg_calculate_position_size eng strength eq = Inr p \<and>
           min_position_pct (eng_config eng) \<le> p \<and>
           p \<le> max_single_position_pct (eng_config eng)"
proof -
  from hg_size_total[OF assms(1,2)]
  obtain p where p: "hg_calculate_position_size eng strength eq = Inr p" ..
  from hg_size_bounds(1)[OF p] hg_size_bounds(2)[OF p assms(3)] p
  show ?thesis by (intro exI[of _ p] conjI)
qed

section \<open>Zero-return trades\<close>

lemma progress_pct_update:
  "target_equity t \<noteq> starting_equity t \<Longrightarrow>
     \<exists>p. progress_pct (growth_tracker_update t r) = Inr p"
  by (simp add: progress_pct_def growth_tracker_update_def Let_def)

text \<open>
  C10. A closed trade with return exactly zero: \<open>CompoundGrowthTracker.update\<close> counts it as
  a loss and leaves the current equity unchanged, \<open>HyperGrowthEngine.on_position_close\<close>
  increments the consecutive-loss counter, and \<open>AggressiveRiskManager.record_trade\<close> resets
  its consecutive-loss counter to zero.
\<close>

theorem zero_return_classification:
  "loss_count (growth_tracker_update t 0) = loss_count t + 1
   \<and> win_count (growth_tracker_update t 0) = win_count t
   \<and> current_equity (growth_tracker_update t 0) = current_equity t
   \<and> eng_consecutive_losses (close_bookkeeping eng symbol 0) = eng_consecutive_losses eng + 1
   \<and> (target_equity (eng_growth_tracker eng) \<noteq> starting_equity (eng_growth_tracker eng) \<longrightarrow>
        (\<exists>eng'. on_position_close stamp eng symbol entry exit side 0 = Inr eng' \<and>
                eng_consecutive_losses eng' = eng_consecutive_losses eng + 1 \<and>
                loss_count (eng_growth_tracker eng') = loss_count (eng_growth_tracker eng) + 1))
   \<and> rm_consecutive_losses (record_trade stamp rm pnl 0 symbol) = 0"
proof (intro conjI impI)
  assume "target_equity (eng_growth_tracker eng) \<noteq> starting_equity (eng_growth_tracker eng)"
  from progress_pct_update[OF this, of 0]
  obtain p where p: "progress_pct (growth_tracker_update (eng_growth_tracker eng) 0) = Inr p" ..
  then show "\<exists>eng'. on_position_close stamp eng symbol entry exit side 0 = Inr eng' \<and>
                eng_consecutive_losses eng' = eng_consecutive_losses eng + 1 \<and>
                loss_count (eng_growth_tracker eng') = loss_count (eng_growth_tracker eng) + 1"
    by (simp add: on_position_close_def close_bookkeeping_def growth_tracker_update_def)
qed (simp_all add: growth_tracker_update_def close_bookkeeping_def record_trade_def Let_def)

theorem zero_return_classification_witness:
  "(\<exists>eng'. on_position_close ''2024-01-01T00:00:00'' fresh_engine ''SOL/USD'' 100 100 ''buy'' 0
             = Inr eng' \<and>
           eng_consecutive_losses eng' = 1 \<and> loss_count (eng_growth_tracker eng') = 1)
   \<and> rm_consecutive_losses
        (record_trade ''2024-01-01T00:00:00'' (fresh_manager\<lparr>rm_consecutive_losses := 3\<rparr>)
           0 0 ''SOL/USD'') = 0"
  using zero_return_classification[of _ fresh_engine "''SOL/USD''" "''2024-01-01T00:00:00''"
          100 100 "''buy''" "fresh_manager\<lparr>rm_consecutive_losses := 3\<rparr>" 0]
  by (simp add: fresh_engine_def init_engine_def)

section \<open>Properties of the memecoin position\<close>

lemma update_price_demo:
  "0 < e \<Longrightarrow> e < p \<Longrightarrow>
     update_price (demo_position e) p =
       (demo_position e)\<lparr>current_price := p, unrealized_pnl_pct := (p - e) / e,
          peak_price := p, peak_pnl_pct := (p - e) / e,
          current_value_sol := 1 + (p - e) / e\<rparr>"
  by (simp add: update_price_def demo_position_def open_position_def Let_def)

text \<open>
  C3. The trail selected below a peak gain of +50% is the position's \<open>trailing_stop_pct\<close>,
  30% on every position the engine opens; from +50% it is 35%. So the trail at peak gain
  +50% is wider than the trail at peak gain +30%.
\<close>

theorem trail_widens_at_half_gain:
  "select_trail (update_price (demo_position 1) 1.3) = 0.30
   \<and> select_trail (update_price (demo_position 1) 1.5) = 0.35
   \<and> peak_pnl_pct (update_price (demo_position 1) 1.3) = 0.3
   \<and> peak_pnl_pct (update_price (demo_position 1) 1.5) = 0.5"
  by (simp add: update_price_demo select_trail_def)
     (simp add: demo_position_def open_position_def)

text \<open>From +50% on, and everywhere when \<open>trailing_stop_pct\<close> is at least 35%, the trail narrows.\<close>

lemma select_trail_antimono_from_half:
  "1 / 2 \<le> peak_pnl_pct p \<Longrightarrow> peak_pnl_pct p \<le> peak_pnl_pct q \<Longrightarrow>
     select_trail q \<le> select_trail p"
  by (simp add: select_trail_def)

lemma select_trail_antimono_wide_default:
  "trailing_stop_pct p = trailing_stop_pct q \<Longrightarrow> 0.35 \<le> trailing_stop_pct p \<Longrightarrow>
     peak_pnl_pct p \<le> peak_pnl_pct q \<Longrightarrow> select_trail q \<le> select_trail p"
  by (simp add: select_trail_def)


lemma scenario_c_states:
  "scenario_c [115] = (demo_position 100)\<lparr>current_price := 115, unrealized_pnl_pct := 0.15,
      peak_price := 115, peak_pnl_pct := 0.15, current_value_sol := 1.15\<rparr>"
  "scenario_c [115, 100] = (demo_position 100)\<lparr>current_price := 100, unrealized_pnl_pct := 0,
      peak_price := 115, peak_pnl_pct := 0.15, current_value_sol := 1\<rparr>"
  "scenario_c [115, 100, 97] = (demo_position 100)\<lparr>current_price := 97,
      unrealized_pnl_pct := - 0.03, peak_price := 115, peak_pnl_pct := 0.15,
      current_value_sol := 0.97\<rparr>"
  by (simp_all add: scenario_c_def update_price_def demo_position_def open_position_def Let_def)

text \<open>
  C4, as stated, fails: after the rise to 115 and the drops to 100 and 97 the position
  is still open.
\<close>

theorem scenario_c_no_exit_at_97:
  "should_exit plain_fmt (scenario_c [115, 100, 97]) = (False, [])"
  by (simp add: scenario_c_states should_exit_def select_trail_def)
     (simp add: demo_position_def open_position_def)

lemma scenario_c_trailing_states:
  "scenario_c_trailing t [115] = (demo_position 100)\<lparr>trailing_stop_pct := t,
      current_price := 115, unrealized_pnl_pct := 0.15,
      peak_price := 115, peak_pnl_pct := 0.15, current_value_sol := 1.15\<rparr>"
  "scenario_c_trailing t [115, 100] = (demo_position 100)\<lparr>trailing_stop_pct := t,
      current_price := 100, unrealized_pnl_pct := 0,
      peak_price := 115, peak_pnl_pct := 0.15, current_value_sol := 1\<rparr>"
  "scenario_c_trailing t [115, 100, 97] = (demo_position 100)\<lparr>trailing_stop_pct := t,
      current_price := 97, unrealized_pnl_pct := - 0.03, peak_price := 115,
      peak_pnl_pct := 0.15, current_value_sol := 0.97\<rparr>"
  by (simp_all add: scenario_c_trailing_def update_price_def demo_position_def
        open_position_def Let_def)

text \<open>
  C4, amended. A long entry at 100 with ATR 2 and multiplier 2 gets stop 96. After the
  rise to 115 the peak gain is +15%, below every gain tier (the 15% trail is the tier of
  a peak gain of +1000%), so the trail is the position's own \<open>trailing_stop_pct\<close>,
  whatever its value \<open>t\<close>. The drop to 100 leaves the position open when \<open>t\<close> is above
  15/115, and the drop to 97 gives a full exit whose reason starts with
  \<open>Trailing stop\<close> exactly when \<open>t\<close> is at most 18/115, as a trail of 15% is; with a
  wider trail the position stays open at 97.
\<close>

theorem scenario_c_own_trail:
  "entry_levels default_hyper_config Bull 100 2 = Some (96, 132, 116, 4)
   \<and> 100 - 2 * initial_stop_atr_mult default_hyper_config = 96
   \<and> peak_pnl_pct (scenario_c_trailing t [115]) = 0.15
   \<and> select_trail (scenario_c_trailing t [115, 100]) = t
   \<and> select_trail (scenario_c_trailing t [115, 100, 97]) = t
   \<and> (15 / 115 < t \<longrightarrow> should_exit f (scenario_c_trailing t [115, 100]) = (False, []))
   \<and> (18 / 115 < t \<longrightarrow> should_exit f (scenario_c_trailing t [115, 100, 97]) = (False, []))
   \<and> (t \<le> 18 / 115 \<longrightarrow>
        fst (should_exit f (scenario_c_trailing t [115, 100, 97])) \<and>
        starts_with ''Trailing stop'' (snd (should_exit f (scenario_c_trailing t [115, 100, 97]))))"
  by (simp add: scenario_c_trailing_states should_exit_def select_trail_def entry_levels_def
        default_hyper_config_def Let_def)
     (simp add: demo_position_def open_position_def)

theorem scenario_c_own_trail_witness:
  "should_exit plain_fmt (scenario_c_trailing 0.15 [115, 100]) = (False, [])
   \<and> fst (should_exit plain_fmt (scenario_c_trailing 0.15 [115, 100, 97]))
   \<and> starts_with ''Trailing stop''
        (snd (should_exit plain_fmt (scenario_c_trailing 0.15 [115, 100, 97])))
   \<and> should_exit plain_fmt (scenario_c_trailing 0.35 [115, 100]) = (False, [])
   \<and> should_exit plain_fmt (scenario_c_trailing 0.35 [115, 100, 97]) = (False, [])"
  using scenario_c_own_trail[of "0.15" plain_fmt] scenario_c_own_trail[of "0.35" plain_fmt]
  by simp

lemma demo_first_pass:
  "manage_position plain_fmt True ''t1'' demo_engine ''mint1'' (Some 3.5) =
     demo_engine\<lparr>me_positions :=
       [(''mint1'', (demo_position 1)\<lparr>current_price := 3.5, unrealized_pnl_pct := 2.5,
            peak_price := 3.5, peak_pnl_pct := 2.5, current_value_sol := 3.5,
            partial_exits_done := [2.5], entry_amount_tokens := 800,
            entry_amount_sol := 0.8\<rparr>)]\<rparr>"
  by (simp add: manage_position_def demo_engine_def update_price_def demo_position_def
        open_position_def should_exit_def select_trail_def get_partial_exit_level_def
        execute_sell_def py_int_def Let_def)


text \<open>
  C5. A position entered at price 1 is managed twice at the unchanged price 3.5 (gain
  250%). The first pass takes the partial exit of level 2 and records 2.5, the gain, in
  \<open>partial_exits_done\<close>; level 2 is still returned by \<open>get_partial_exit_level\<close>, and the
  second pass sells another 20%.
\<close>

theorem partial_exit_refires:
  "get_partial_exit_level
     (position_at (manage_position plain_fmt True ''t1'' demo_engine ''mint1'' (Some 3.5))
        ''mint1'') = Some 2
   \<and> partial_exits_done
       (position_at (manage_position plain_fmt True ''t1'' demo_engine ''mint1'' (Some 3.5))
          ''mint1'') = [2.5]
   \<and> partial_exits_done (position_at manage_twice ''mint1'') = [2.5, 2.5]
   \<and> entry_amount_tokens (position_at manage_twice ''mint1'') = 640
   \<and> entry_amount_sol (position_at manage_twice ''mint1'') = 0.64"
  unfolding manage_twice_def demo_first_pass
  by (simp add: manage_position_def demo_engine_def update_price_def demo_position_def
        open_position_def should_exit_def select_trail_def get_partial_exit_level_def
        execute_sell_def py_int_def position_at_def Let_def)

text \<open>A pyramid add is issued for the level after the current count and raises the count.\<close>

lemma check_pyramid_level:
  assumes "check_pyramid eng ms = Inr (eng', Some sig)"
    and "map_of (eng_active_positions eng) (ms_symbol ms) = Some pos"
  shows "hs_pyramid_level sig = ap_pyramid_count pos + 1"
    and "map_of (eng_active_positions eng') (ms_symbol ms) =
           Some (pos\<lparr>ap_pyramid_count := ap_pyramid_count pos + 1,
                    ap_peak_price := ms_current_price ms\<rparr>)"
  using assms
  by (auto simp: check_pyramid_def Let_def update_conv' split: if_splits sum.splits)

section \<open>Properties of signal fusion\<close>

lemma fuse_step_bull_sources:
  "length (active_bull_sources (fuse_step f eng bb rb reading acc)) =
     length (active_bull_sources acc) + length (contributing Bull [reading])"
  by (cases reading)
     (auto simp: fuse_step_def contributing_def Let_def split: direction.splits)

lemma fuse_step_bear_sources:
  "length (active_bear_sources (fuse_step f eng bb rb reading acc)) =
     length (active_bear_sources acc) + length (contributing Bear [reading])"
  by (cases reading)
     (auto simp: fuse_step_def contributing_def Let_def split: direction.splits)

lemma contributing_Cons:
  "length (contributing d (reading # rest)) =
     length (contributing d [reading]) + length (contributing d rest)"
  by (simp add: contributing_def)

lemma fuse_loop_bull_sources:
  "length (active_bull_sources (fuse_loop f eng bb rb sources acc)) =
     length (active_bull_sources acc) + length (contributing Bull sources)"
proof (induction sources arbitrary: acc)
  case Nil
  show ?case by (simp add: contributing_def)
next
  case (Cons reading rest)
  show ?case
    by (simp add: Cons.IH fuse_step_bull_sources contributing_Cons[of Bull reading rest])
qed

lemma fuse_loop_bear_sources:
  "length (active_bear_sources (fuse_loop f eng bb rb sources acc)) =
     length (active_bear_sources acc) + length (contributing Bear sources)"
proof (induction sources arbitrary: acc)
  case Nil
  show ?case by (simp add: contributing_def)
next
  case (Cons reading rest)
  show ?case
    by (simp add: Cons.IH fuse_step_bear_sources contributing_Cons[of Bear reading rest])
qed

lemma fusion_totals_counts:
  "length (active_bull_sources (fusion_totals f eng sources regime)) =
     length (contributing Bull sources)"
  "length (active_bear_sources (fusion_totals f eng sources regime)) =
     length (contributing Bear sources)"
  by (simp_all add: fusion_totals_def Let_def fuse_loop_bull_sources fuse_loop_bear_sources)

text \<open>The loop reads the configuration and the accuracy table of the engine only.\<close>

lemma get_source_weight_cong:
  "eng_source_accuracy eng = eng_source_accuracy eng' \<Longrightarrow>
     get_source_weight eng = get_source_weight eng'"
  by (rule ext) (simp add: get_source_weight_def)

lemma fuse_step_cong:
  assumes "eng_source_accuracy eng = eng_source_accuracy eng'"
  shows "fuse_step f eng bb rb reading acc = fuse_step f eng' bb rb reading acc"
  unfolding fuse_step_def get_source_weight_cong[OF assms] ..

lemma fuse_loop_cong:
  "eng_source_accuracy eng = eng_source_accuracy eng' \<Longrightarrow>
     fuse_loop f eng bb rb sources acc = fuse_loop f eng' bb rb sources acc"
  by (induction sources arbitrary: acc) (simp_all add: fuse_step_cong[of eng eng'])

lemma reset_daily_counter_fields:
  "eng_config (reset_daily_counter today eng) = eng_config eng"
  "eng_active_positions (reset_daily_counter today eng) = eng_active_positions eng"
  "eng_growth_tracker (reset_daily_counter today eng) = eng_growth_tracker eng"
  by (simp_all add: reset_daily_counter_def)

lemma fusion_totals_reset:
  "fusion_totals f (reset_daily_counter today eng) sources regime =
     fusion_totals f eng sources regime"
  by (simp add: fusion_totals_def Let_def reset_daily_counter_def
        fuse_loop_cong[of "eng\<lparr>eng_daily_trades := 0, eng_last_trade_date := Some today\<rparr>" eng])

lemma fuse_signals_reset:
  "fuse_signals f (reset_daily_counter today eng) sources regime =
     fuse_signals f eng sources regime"
  unfolding fuse_signals_def fusion_totals_reset reset_daily_counter_fields ..

lemma fuse_signals_cases:
  "fuse_signals f eng sources regime = (score, d, act) \<Longrightarrow>
     (d = Neutral \<and> score = 0 \<and> act = []) \<or>
     (0 < total_weight (fusion_totals f eng sources regime) \<and>
      ((d = Bull \<and> score = bull_norm (fusion_totals f eng sources regime) \<and>
        bear_norm (fusion_totals f eng sources regime)
          < bull_norm (fusion_totals f eng sources regime) \<and>
        act = active_bull_sources (fusion_totals f eng sources regime) \<and>
        min_sources_agreeing (eng_config eng) \<le> int (length (contributing Bull sources))) \<or>
       (d = Bear \<and> score = bear_norm (fusion_totals f eng sources regime) \<and>
        bull_norm (fusion_totals f eng sources regime)
          < bear_norm (fusion_totals f eng sources regime) \<and>
        act = active_bear_sources (fusion_totals f eng sources regime) \<and>
        min_sources_agreeing (eng_config eng) \<le> int (length (contributing Bear sources)))))"
  by (auto simp: fuse_signals_def Let_def fusion_totals_counts split: if_splits)

lemma fuse_signals_tie:
  "bull_norm (fusion_totals f eng sources regime) = bear_norm (fusion_totals f eng sources regime)
     \<Longrightarrow> fuse_signals f eng sources regime = (0, Neutral, [])"
  by (simp add: fuse_signals_def Let_def)


lemma generate_signals_fusion_path:
  assumes below: "int (length (eng_active_positions eng)) < max_concurrent_positions (eng_config eng)"
    and gen: "generate_signals f now today eng ms = Inr (eng', sigs)"
    and ne: "sigs \<noteq> []"
  shows "\<exists>sig score d act.
           sigs = [sig] \<and>
           fuse_signals f eng (ms_sources ms) (regime_of ms) = (score, d, act) \<and>
           d \<noteq> Neutral \<and> min_signal_strength (eng_config eng) \<le> score \<and>
           hs_strength sig = score \<and>
           hs_signal_type sig = (if d = Bull then LONG else SHORT) \<and>
           hs_active_sources sig = act \<and> \<not> hs_is_pyramid sig"
  using assms
  unfolding generate_signals_def Let_def fuse_signals_reset reset_daily_counter_fields
  by (auto split: if_splits sum.splits prod.splits option.splits)


text \<open>The definitions that evaluate \<open>generate_signals\<close> on the concrete inputs.\<close>

lemmas eval_generate =
  generate_signals_def fresh_engine_def init_engine_def default_hyper_config_def
  market_with_def regime_of_def equity_of_def reset_daily_counter_def fuse_signals_def
  fusion_totals_def fuse_step_def get_source_weight_def dict_get_def bull_norm_def
  bear_norm_def hg_calculate_position_size_def get_aggression_multiplier_def
  progress_pct_def entry_levels_def Let_def



text \<open>
  When the engine holds fewer positions than \<open>max_concurrent_positions\<close> (so that
  \<open>generate_signals\<close> runs the fusion and not the pyramid check), a returned signal is
  the only one, and it is long (short) only if the normalised bull (bear) score is above
  the other one, is not below \<open>min_signal_strength\<close>, and at least
  \<open>min_sources_agreeing\<close> readings contributed to that direction. When the two
  normalised scores are equal, the fusion result is neutral with score 0 and no signal is
  returned.
\<close>

lemma fusion_path_quorum_and_tie:
  assumes "int (length (eng_active_positions eng)) < max_concurrent_positions (eng_config eng)"
    and "generate_signals f now today eng ms = Inr (eng', sigs)"
  shows "(sigs \<noteq> [] \<longrightarrow>
           (\<exists>sig. sigs = [sig] \<and>
              0 < total_weight (fusion_totals f eng (ms_sources ms) (regime_of ms)) \<and>
              ((hs_signal_type sig = LONG \<and>
                hs_strength sig = bull_norm (fusion_totals f eng (ms_sources ms) (regime_of ms)) \<and>
                bear_norm (fusion_totals f eng (ms_sources ms) (regime_of ms))
                  < bull_norm (fusion_totals f eng (ms_sources ms) (regime_of ms)) \<and>
                min_signal_strength (eng_config eng)
                  \<le> bull_norm (fusion_totals f eng (ms_sources ms) (regime_of ms)) \<and>
                min_sources_agreeing (eng_config eng)
                  \<le> int (length (contributing Bull (ms_sources ms))))
               \<or>
               (hs_signal_type sig = SHORT \<and>
                hs_strength sig = bear_norm (fusion_totals f eng (ms_sources ms) (regime_of ms)) \<and>
                bull_norm (fusion_totals f eng (ms_sources ms) (regime_of ms))
                  < bear_norm (fusion_totals f eng (ms_sources ms) (regime_of ms)) \<and>
                min_signal_strength (eng_config eng)
                  \<le> bear_norm (fusion_totals f eng (ms_sources ms) (regime_of ms)) \<and>
                min_sources_agreeing (eng_config eng)
                  \<le> int (length (contributing Bear (ms_sources ms)))))))
       \<and> (bull_norm (fusion_totals f eng (ms_sources ms) (regime_of ms)) =
            bear_norm (fusion_totals f eng (ms_sources ms) (regime_of ms)) \<longrightarrow>
            fuse_signals f eng (ms_sources ms) (regime_of ms) = (0, Neutral, []) \<and> sigs = [])"
proof (intro conjI impI)
  assume ne: "sigs \<noteq> []"
  from generate_signals_fusion_path[OF assms ne]
  obtain sig score d act where
    s: "sigs = [sig]" and
    fs: "fuse_signals f eng (ms_sources ms) (regime_of ms) = (score, d, act)" and
    d: "d \<noteq> Neutral" and m: "min_signal_strength (eng_config eng) \<le> score" and
    st: "hs_strength sig = score" and
    ty: "hs_signal_type sig = (if d = Bull then LONG else SHORT)"
    by blast
  from fuse_signals_cases[OF fs] d s m st ty
  show "\<exists>sig. sigs = [sig] \<and>
              0 < total_weight (fusion_totals f eng (ms_sources ms) (regime_of ms)) \<and>
              ((hs_signal_type sig = LONG \<and>
                hs_strength sig = bull_norm (fusion_totals f eng (ms_sources ms) (regime_of ms)) \<and>
                bear_norm (fusion_totals f eng (ms_sources ms) (regime_of ms))
                  < bull_norm (fusion_totals f eng (ms_sources ms) (regime_of ms)) \<and>
                min_signal_strength (eng_config eng)
                  \<le> bull_norm (fusion_totals f eng (ms_sources ms) (regime_of ms)) \<and>
                min_sources_agreeing (eng_config eng)
                  \<le> int (length (contributing Bull (ms_sources ms))))
               \<or>
               (hs_signal_type sig = SHORT \<and>
                hs_strength sig = bear_norm (fusion_totals f eng (ms_sources ms) (regime_of ms)) \<and>
                bull_norm (fusion_totals f eng (ms_sources ms) (regime_of ms))
                  < bear_norm (fusion_totals f eng (ms_sources ms) (regime_of ms)) \<and>
                min_signal_strength (eng_config eng)
                  \<le> bear_norm (fusion_totals f eng (ms_sources ms) (regime_of ms)) \<and>
                min_sources_agreeing (eng_config eng)
                  \<le> int (length (contributing Bear (ms_sources ms)))))"
    by (intro exI[of _ sig]) auto
next
  assume tie: "bull_norm (fusion_totals f eng (ms_sources ms) (regime_of ms)) =
            bear_norm (fusion_totals f eng (ms_sources ms) (regime_of ms))"
  then show fs: "fuse_signals f eng (ms_sources ms) (regime_of ms) = (0, Neutral, [])"
    by (rule fuse_signals_tie)
  show "sigs = []"
  proof (rule ccontr)
    assume "sigs \<noteq> []"
    from generate_signals_fusion_path[OF assms this] fs show False by auto
  qed
qed

lemma fusion_path_quorum_and_tie_witness:
  "int (length (eng_active_positions fresh_engine))
     < max_concurrent_positions (eng_config fresh_engine)
   \<and> (\<exists>sig. emitted (generate_signals plain_fmt 0 ''2024-01-01'' fresh_engine (market_with 0.8))
             = [sig] \<and>
            hs_signal_type sig = LONG \<and> hs_strength sig = 0.8)
   \<and> bull_norm (fusion_totals plain_fmt fresh_engine (ms_sources market_tied)
                  (regime_of market_tied)) = 0.45
   \<and> bear_norm (fusion_totals plain_fmt fresh_engine (ms_sources market_tied)
                  (regime_of market_tied)) = 0.45
   \<and> emitted (generate_signals plain_fmt 0 ''2024-01-01'' fresh_engine market_tied) = []"
proof -
  let ?g = "generate_signals plain_fmt 0 ''2024-01-01'' fresh_engine (market_with 0.8)"
  let ?T = "fusion_totals plain_fmt fresh_engine (ms_sources (market_with 0.8))
              (regime_of (market_with 0.8))"
  have below: "int (length (eng_active_positions fresh_engine))
     < max_concurrent_positions (eng_config fresh_engine)"
    by (simp add: fresh_engine_def init_engine_def default_hyper_config_def)
  have "\<exists>eng' sigs. ?g = Inr (eng', sigs) \<and> sigs \<noteq> []"
    by (simp add: eval_generate)
  then obtain eng' sigs where g: "?g = Inr (eng', sigs)" and ne: "sigs \<noteq> []"
    by blast
  have norms: "bull_norm ?T = 0.8" "bear_norm ?T = 0"
    by (simp_all add: eval_generate)
  from fusion_path_quorum_and_tie[OF below g] ne norms
  have "\<exists>sig. sigs = [sig] \<and> hs_signal_type sig = LONG \<and> hs_strength sig = 0.8"
    by auto
  then have one: "\<exists>sig. emitted ?g = [sig] \<and> hs_signal_type sig = LONG \<and> hs_strength sig = 0.8"
    unfolding emitted_def g by simp
  let ?g0 = "generate_signals plain_fmt 0 ''2024-01-01'' fresh_engine market_tied"
  let ?T0 = "fusion_totals plain_fmt fresh_engine (ms_sources market_tied)
              (regime_of market_tied)"
  have "\<exists>eng' sigs. ?g0 = Inr (eng', sigs)"
    by (simp add: eval_generate market_tied_def)
  then obtain eng0 sigs0 where g0: "?g0 = Inr (eng0, sigs0)"
    by blast
  have tie: "bull_norm ?T0 = 0.45" "bear_norm ?T0 = 0.45"
    by (simp_all add: eval_generate market_tied_def)
  from fusion_path_quorum_and_tie[OF below g0] tie have "sigs0 = []"
    by simp
  then have none: "emitted ?g0 = []"
    unfolding emitted_def g0 by simp
  from below one tie none show ?thesis by blast
qed

end
